theory Spec2Isabelle
  imports Main "HOL-Library.Sublist"
begin

section \<open>CodingTimeTracker: the store (database.ts) and the activity tracker (tracker.ts)\<close>

text \<open>
  The extension keeps two SQL tables in an in-memory SQLite database (sql.js) and a small
  tracker object that decides when a session starts and ends. The embedding keeps the
  source's names. Every \<^verbatim>\<open>Date.now()\<close> of the source is an input of the model: a store
  method takes the one reading it makes as its first argument, a tracker method takes a
  function from the call sites of \<^verbatim>\<open>Date.now()\<close> to the values read there. Millisecond
  timestamps are integers. An exception is a value: a store method returns
  \<open>Inl\<close> of the error, a tracker method returns \<open>Thrown\<close> together with the state the
  throw leaves behind.
\<close>

subsection \<open>Rows and tables\<close>

text \<open>The interface \<^verbatim>\<open>Session\<close>; its field \<^verbatim>\<open>id\<close> is \<open>session_id\<close> here.\<close>

record Session =
  session_id :: int
  file_path :: string
  project_path :: "string option"
  start_time :: int
  end_time :: "int option"
  duration_ms :: "int option"

text \<open>The interface \<^verbatim>\<open>FileStats\<close>, a row of the table \<^verbatim>\<open>file_stats\<close>.\<close>

record FileStats =
  fs_file_path :: string
  fs_project_path :: "string option"
  total_time_ms :: int
  last_active :: int

text \<open>
  The database of \<^verbatim>\<open>createTables\<close>. The table \<^verbatim>\<open>sessions\<close> is the list of its rows in
  insertion order; \<^verbatim>\<open>file_stats\<close> has \<^verbatim>\<open>file_path\<close> as primary key and is a map from it.
  \<open>sqlite_sequence\<close> is the largest row id that \<^verbatim>\<open>AUTOINCREMENT\<close> has handed out.
\<close>

record database =
  sessions :: "Session list"
  file_stats :: "string \<rightharpoonup> FileStats"
  sqlite_sequence :: int

text \<open>
  The class \<^verbatim>\<open>DatabaseManager\<close>: \<open>db\<close> is \<^verbatim>\<open>null\<close> before \<^verbatim>\<open>initialize\<close> and after
  \<^verbatim>\<open>close\<close>; \<open>saveTimeout\<close> tells whether a debounced save has been scheduled.
\<close>

record DatabaseManager =
  db :: "database option"
  saveTimeout :: bool

datatype error = DatabaseNotInitialized

definition empty_database :: database where
  "empty_database = \<lparr>sessions = [], file_stats = Map.empty, sqlite_sequence = 0\<rparr>"

definition scheduleSave :: "DatabaseManager \<Rightarrow> DatabaseManager" where
  "scheduleSave m = m\<lparr>saveTimeout := True\<rparr>"

subsection \<open>The SQL statements\<close>

text \<open>\<^verbatim>\<open>AUTOINCREMENT\<close>: one more than the largest row id that ever existed in the table.\<close>

definition next_rowid :: "database \<Rightarrow> int" where
  "next_rowid d = fold max (map session_id (sessions d)) (sqlite_sequence d) + 1"

text \<open>\<^verbatim>\<open>SELECT ... FROM sessions WHERE id = ?\<close>, first row of the result.\<close>

definition select_session :: "int \<Rightarrow> database \<Rightarrow> Session option" where
  "select_session sessionId d = find (\<lambda>s. session_id s = sessionId) (sessions d)"

text \<open>\<^verbatim>\<open>UPDATE sessions SET end_time = ?, duration_ms = ? WHERE id = ?\<close>.\<close>

definition update_session :: "int \<Rightarrow> int \<Rightarrow> int \<Rightarrow> Session list \<Rightarrow> Session list" where
  "update_session endTime durationMs sessionId rows =
     map (\<lambda>s. if session_id s = sessionId
               then s\<lparr>end_time := Some endTime, duration_ms := Some durationMs\<rparr> else s) rows"

subsection \<open>DatabaseManager\<close>

definition startSession ::
  "int \<Rightarrow> string \<Rightarrow> string option \<Rightarrow> DatabaseManager \<Rightarrow> error + (int \<times> DatabaseManager)" where
  "startSession now filePath projectPath m =
     (case db m of
        None \<Rightarrow> Inl DatabaseNotInitialized
      | Some d \<Rightarrow>
          let startTime = now;
              sessionId = next_rowid d;
              d' = d\<lparr>sessions := sessions d @
                       [\<lparr>session_id = sessionId, file_path = filePath,
                         project_path = projectPath, start_time = startTime,
                         end_time = None, duration_ms = None\<rparr>],
                     sqlite_sequence := sessionId\<rparr>
          in Inr (sessionId, scheduleSave (m\<lparr>db := Some d'\<rparr>)))"

definition updateFileStats ::
  "string \<Rightarrow> string option \<Rightarrow> int \<Rightarrow> int \<Rightarrow> DatabaseManager \<Rightarrow> DatabaseManager" where
  "updateFileStats filePath projectPath durationMs timestamp m =
     (case db m of
        None \<Rightarrow> m
      | Some d \<Rightarrow>
          (case file_stats d filePath of
             Some existing \<Rightarrow>
               m\<lparr>db := Some (d\<lparr>file_stats := (file_stats d)(filePath \<mapsto>
                     existing\<lparr>total_time_ms := total_time_ms existing + durationMs,
                              last_active := timestamp\<rparr>)\<rparr>)\<rparr>
           | None \<Rightarrow>
               m\<lparr>db := Some (d\<lparr>file_stats := (file_stats d)(filePath \<mapsto>
                     \<lparr>fs_file_path = filePath, fs_project_path = projectPath,
                      total_time_ms = durationMs, last_active = timestamp\<rparr>)\<rparr>)\<rparr>))"

definition endSession :: "int \<Rightarrow> int \<Rightarrow> DatabaseManager \<Rightarrow> error + DatabaseManager" where
  "endSession now sessionId m =
     (case db m of
        None \<Rightarrow> Inl DatabaseNotInitialized
      | Some d \<Rightarrow>
          (case select_session sessionId d of
             None \<Rightarrow> Inr m
           | Some row \<Rightarrow>
               let filePath = file_path row;
                   projectPath = project_path row;
                   startTime = start_time row;
                   endTime = now;
                   durationMs = endTime - startTime;
                   m1 = m\<lparr>db := Some (d\<lparr>sessions :=
                           update_session endTime durationMs sessionId (sessions d)\<rparr>)\<rparr>;
                   m2 = updateFileStats filePath projectPath durationMs endTime m1
               in Inr (scheduleSave m2)))"

definition getFileStats :: "string \<Rightarrow> DatabaseManager \<Rightarrow> error + FileStats option" where
  "getFileStats filePath m =
     (case db m of
        None \<Rightarrow> Inl DatabaseNotInitialized
      | Some d \<Rightarrow> Inr (file_stats d filePath))"

definition getOngoingSessions :: "DatabaseManager \<Rightarrow> error + Session list" where
  "getOngoingSessions m =
     (case db m of
        None \<Rightarrow> Inl DatabaseNotInitialized
      | Some d \<Rightarrow> Inr (filter (\<lambda>s. end_time s = None) (sessions d)))"

text \<open>
  \<^verbatim>\<open>getTodayStats\<close>; the local midnight \<^verbatim>\<open>todayStartMs\<close> is an input. \<^verbatim>\<open>SUM\<close> skips the
  rows whose \<^verbatim>\<open>duration_ms\<close> is \<^verbatim>\<open>NULL\<close>, \<^verbatim>\<open>COUNT(DISTINCT file_path)\<close> does not.
\<close>

definition sum_duration_ms :: "Session list \<Rightarrow> int" where
  "sum_duration_ms rows = sum_list (map (\<lambda>s. case duration_ms s of None \<Rightarrow> 0 | Some v \<Rightarrow> v) rows)"

definition getTodayStats :: "int \<Rightarrow> DatabaseManager \<Rightarrow> error + (int \<times> nat)" where
  "getTodayStats todayStartMs m =
     (case db m of
        None \<Rightarrow> Inl DatabaseNotInitialized
      | Some d \<Rightarrow>
          let rows = filter (\<lambda>s. todayStartMs \<le> start_time s) (sessions d);
              totalTime = sum_duration_ms rows;
              fileCount = length (remdups (map file_path rows))
          in Inr (totalTime, fileCount))"

text \<open>
  \<^verbatim>\<open>close\<close> ends every ongoing session, each with its own clock reading (\<open>now\<close> gives the
  reading taken for a session id), and drops the database. The write to disk is left out.
\<close>

fun end_sessions ::
  "(int \<Rightarrow> int) \<Rightarrow> Session list \<Rightarrow> DatabaseManager \<Rightarrow> error + DatabaseManager" where
  "end_sessions now [] m = Inr m"
| "end_sessions now (s # rest) m =
     (if session_id s \<noteq> 0
      then (case endSession (now (session_id s)) (session_id s) m of
              Inl e \<Rightarrow> Inl e
            | Inr m' \<Rightarrow> end_sessions now rest m')
      else end_sessions now rest m)"

definition close :: "(int \<Rightarrow> int) \<Rightarrow> DatabaseManager \<Rightarrow> error + DatabaseManager" where
  "close now m =
     (let m0 = m\<lparr>saveTimeout := False\<rparr>
      in case db m0 of
           None \<Rightarrow> Inr m0
         | Some d \<Rightarrow>
             (case getOngoingSessions m0 of
                Inl e \<Rightarrow> Inl e
              | Inr ongoingSessions \<Rightarrow>
                  (case end_sessions now ongoingSessions m0 of
                     Inl e \<Rightarrow> Inl e
                   | Inr m1 \<Rightarrow> Inr (m1\<lparr>db := None\<rparr>))))"

subsection \<open>ActivityTracker\<close>

text \<open>
  The fields of \<^verbatim>\<open>ActivityTracker\<close> that carry session state. The tracker holds a
  reference to the shared \<^verbatim>\<open>DatabaseManager\<close>, so a tracker method acts on a \<open>world\<close>:
  the tracker, the manager and the workspace folders the host reports. The handles of
  the timer and of the event subscriptions belong to the host and are left out, as are
  the \<^verbatim>\<open>onSessionChange\<close> callbacks, which only read.
\<close>

record ActivityTracker =
  currentSessionId :: "int option"
  currentFilePath :: "string option"
  lastActivityTime :: int

record world =
  tracker :: ActivityTracker
  store :: DatabaseManager
  workspaceFolders :: "string list option"

text \<open>The call sites of \<^verbatim>\<open>Date.now()\<close> that a tracker method can reach.\<close>

datatype clock_read =
    AtOnActivity
  | AtOnEditorChange
  | AtStartNewSession
  | AtWindowBlur
  | AtCheckIdle
  | AtStoreStartSession
  | AtStoreEndSession

type_synonym clock = "clock_read \<Rightarrow> int"

datatype outcome = Done world | Thrown error world

fun world_of :: "outcome \<Rightarrow> world" where
  "world_of (Done w) = w"
| "world_of (Thrown e w) = w"

definition IDLE_TIMEOUT_MS :: int where
  "IDLE_TIMEOUT_MS = 2 * 60 * 1000"

definition HEARTBEAT_INTERVAL_MS :: int where
  "HEARTBEAT_INTERVAL_MS = 30 * 1000"

definition getProjectPath :: "string list option \<Rightarrow> string \<Rightarrow> string option" where
  "getProjectPath folders filePath =
     (case folders of
        None \<Rightarrow> None
      | Some fs \<Rightarrow> find (\<lambda>folder. prefix folder filePath) fs)"

definition endCurrentSession :: "clock \<Rightarrow> world \<Rightarrow> outcome" where
  "endCurrentSession clk w =
     (case currentSessionId (tracker w) of
        None \<Rightarrow> Done w
      | Some sessionId \<Rightarrow>
          (case endSession (clk AtStoreEndSession) sessionId (store w) of
             Inl e \<Rightarrow> Thrown e w
           | Inr m \<Rightarrow>
               Done (w\<lparr>store := m,
                       tracker := (tracker w)\<lparr>currentSessionId := None,
                                              currentFilePath := None\<rparr>\<rparr>)))"

definition startNewSession :: "clock \<Rightarrow> string \<Rightarrow> world \<Rightarrow> outcome" where
  "startNewSession clk filePath w =
     (case endCurrentSession clk w of
        Thrown e w1 \<Rightarrow> Thrown e w1
      | Done w1 \<Rightarrow>
          let projectPath = getProjectPath (workspaceFolders w1) filePath
          in (case startSession (clk AtStoreStartSession) filePath projectPath (store w1) of
                Inl e \<Rightarrow> Thrown e w1
              | Inr (sessionId, m) \<Rightarrow>
                  Done (w1\<lparr>store := m,
                           tracker := (tracker w1)\<lparr>currentSessionId := Some sessionId,
                                                   currentFilePath := Some filePath,
                                                   lastActivityTime := clk AtStartNewSession\<rparr>\<rparr>)))"

definition onActivity :: "clock \<Rightarrow> string \<Rightarrow> world \<Rightarrow> outcome" where
  "onActivity clk filePath w =
     (let w0 = w\<lparr>tracker := (tracker w)\<lparr>lastActivityTime := clk AtOnActivity\<rparr>\<rparr>
      in if currentFilePath (tracker w0) = Some filePath \<and> currentSessionId (tracker w0) \<noteq> None
         then Done w0
         else startNewSession clk filePath w0)"

definition onEditorChange :: "clock \<Rightarrow> string \<Rightarrow> world \<Rightarrow> outcome" where
  "onEditorChange clk filePath w =
     (case (if currentFilePath (tracker w) \<noteq> Some filePath
            then startNewSession clk filePath w else Done w) of
        Thrown e w1 \<Rightarrow> Thrown e w1
      | Done w1 \<Rightarrow>
          Done (w1\<lparr>tracker := (tracker w1)\<lparr>lastActivityTime := clk AtOnEditorChange\<rparr>\<rparr>))"

definition checkIdle :: "clock \<Rightarrow> world \<Rightarrow> outcome" where
  "checkIdle clk w =
     (if currentSessionId (tracker w) = None then Done w
      else let now = clk AtCheckIdle;
               idleTime = now - lastActivityTime (tracker w)
           in if IDLE_TIMEOUT_MS \<le> idleTime then endCurrentSession clk w else Done w)"

definition isTracking :: "world \<Rightarrow> bool" where
  "isTracking w = (currentSessionId (tracker w) \<noteq> None)"

definition getSessionStartTime :: "world \<Rightarrow> int option" where
  "getSessionStartTime w =
     (if currentSessionId (tracker w) = None then None
      else Some (lastActivityTime (tracker w)))"

definition stop :: "clock \<Rightarrow> world \<Rightarrow> outcome" where
  "stop clk w = endCurrentSession clk w"

subsection \<open>The event handlers registered by start\<close>

text \<open>
  A document or editor of the host is known by its URI. The window-state event carries
  the focus flag; its handler also reads the active editor, which may be absent.
\<close>

record uri =
  scheme :: string
  fsPath :: string

datatype event =
    DidChangeTextDocument uri
  | DidChangeActiveTextEditor "uri option"
  | DidChangeWindowState bool "uri option"
  | DidChangeTextEditorSelection uri
  | HeartbeatTick
  | StopCall

definition onWindowBlur :: "clock \<Rightarrow> world \<Rightarrow> outcome" where
  "onWindowBlur clk w =
     Done (w\<lparr>tracker := (tracker w)\<lparr>lastActivityTime := clk AtWindowBlur - IDLE_TIMEOUT_MS\<rparr>\<rparr>)"

fun handle :: "event \<Rightarrow> clock \<Rightarrow> world \<Rightarrow> outcome" where
  "handle (DidChangeTextDocument u) clk w =
     (if scheme u = ''file'' then onActivity clk (fsPath u) w else Done w)"
| "handle (DidChangeActiveTextEditor editor) clk w =
     (case editor of
        None \<Rightarrow> Done w
      | Some u \<Rightarrow> if scheme u = ''file'' then onEditorChange clk (fsPath u) w else Done w)"
| "handle (DidChangeWindowState focused editor) clk w =
     (if focused
      then (case editor of
              None \<Rightarrow> Done w
            | Some u \<Rightarrow> if scheme u = ''file'' then onActivity clk (fsPath u) w else Done w)
      else onWindowBlur clk w)"
| "handle (DidChangeTextEditorSelection u) clk w =
     (if scheme u = ''file'' then onActivity clk (fsPath u) w else Done w)"
| "handle HeartbeatTick clk w = checkIdle clk w"
| "handle StopCall clk w = stop clk w"

text \<open>
  The host runs one callback after the other; an exception ends the callback that threw
  it, and the next one starts from the state it left.
\<close>

fun run :: "(event \<times> clock) list \<Rightarrow> world \<Rightarrow> world" where
  "run [] w = w"
| "run ((e, clk) # rest) w = run rest (world_of (handle e clk w))"

text \<open>The ids of the rows of \<^verbatim>\<open>sessions\<close> whose \<^verbatim>\<open>end_time\<close> is \<^verbatim>\<open>NULL\<close>.\<close>

definition ongoing_ids :: "DatabaseManager \<Rightarrow> int list" where
  "ongoing_ids m =
     (case getOngoingSessions m of Inl e \<Rightarrow> [] | Inr rows \<Rightarrow> map session_id rows)"

subsection \<open>Sequences of store calls\<close>

text \<open>
  A client of the store calls \<^verbatim>\<open>startSession\<close> and \<^verbatim>\<open>endSession\<close> one after the other; an
  exception ends the sequence.
\<close>

datatype store_call = StartSession string "string option" int | EndSession int int

fun call :: "store_call \<Rightarrow> DatabaseManager \<Rightarrow> error + DatabaseManager" where
  "call (StartSession filePath projectPath now) m =
     (case startSession now filePath projectPath m of
        Inl e \<Rightarrow> Inl e
      | Inr (sessionId, m') \<Rightarrow> Inr m')"
| "call (EndSession sessionId now) m = endSession now sessionId m"

fun calls :: "store_call list \<Rightarrow> DatabaseManager \<Rightarrow> error + DatabaseManager" where
  "calls [] m = Inr m"
| "calls (c # cs) m = (case call c m of Inl e \<Rightarrow> Inl e | Inr m' \<Rightarrow> calls cs m')"

text \<open>The session is in the table and its \<^verbatim>\<open>end_time\<close> is still \<^verbatim>\<open>NULL\<close>.\<close>

definition is_open :: "int \<Rightarrow> DatabaseManager \<Rightarrow> bool" where
  "is_open sessionId m =
     (case db m of
        None \<Rightarrow> False
      | Some d \<Rightarrow>
          (case select_session sessionId d of
             None \<Rightarrow> False
           | Some row \<Rightarrow> end_time row = None))"

text \<open>Every \<^verbatim>\<open>endSession\<close> of the sequence is given a session that is open when it is called.\<close>

fun ends_open_only :: "store_call list \<Rightarrow> DatabaseManager \<Rightarrow> bool" where
  "ends_open_only [] m = True"
| "ends_open_only (StartSession filePath projectPath now # cs) m =
     (case call (StartSession filePath projectPath now) m of
        Inl e \<Rightarrow> True
      | Inr m' \<Rightarrow> ends_open_only cs m')"
| "ends_open_only (EndSession sessionId now # cs) m =
     (is_open sessionId m \<and>
      (case call (EndSession sessionId now) m of
         Inl e \<Rightarrow> True
       | Inr m' \<Rightarrow> ends_open_only cs m'))"

subsection \<open>What the properties speak about\<close>

text \<open>The sum of \<^verbatim>\<open>duration_ms\<close> over the closed sessions of a file.\<close>

definition closed_sum :: "string \<Rightarrow> database \<Rightarrow> int" where
  "closed_sum f d =
     sum_duration_ms (filter (\<lambda>s. file_path s = f \<and> end_time s \<noteq> None) (sessions d))"

text \<open>The aggregate of a file; a file without a row in \<^verbatim>\<open>file_stats\<close> has no time yet.\<close>

definition total_of :: "database \<Rightarrow> string \<Rightarrow> int" where
  "total_of d f = (case file_stats d f of None \<Rightarrow> 0 | Some r \<Rightarrow> total_time_ms r)"

definition aggregates_agree :: "database \<Rightarrow> bool" where
  "aggregates_agree d = (\<forall>f. total_of d f = closed_sum f d)"

text \<open>\<^verbatim>\<open>id INTEGER PRIMARY KEY\<close>: no two rows of \<^verbatim>\<open>sessions\<close> share an id.\<close>

definition unique_ids :: "database \<Rightarrow> bool" where
  "unique_ids d = distinct (map session_id (sessions d))"

text \<open>
  The rows of the store that are still open are those of \<open>dangling\<close>, which a previous
  run left behind, and after them the session the tracker holds, if it holds one.
\<close>

definition single_open :: "int list \<Rightarrow> world \<Rightarrow> bool" where
  "single_open dangling w =
     (case currentSessionId (tracker w) of
        None \<Rightarrow> ongoing_ids (store w) = dangling
      | Some sessionId \<Rightarrow>
          ongoing_ids (store w) = dangling @ [sessionId] \<and> sessionId \<notin> set dangling)"

text \<open>
  Which sessions the tracker and the store hold and which of them are ended, with every
  timestamp left out.
\<close>

definition row_status :: "Session \<Rightarrow> int \<times> string \<times> bool" where
  "row_status s = (session_id s, file_path s, end_time s \<noteq> None)"

definition session_status ::
  "world \<Rightarrow> int option \<times> string option \<times> (int \<times> string \<times> bool) list" where
  "session_status w =
     (currentSessionId (tracker w), currentFilePath (tracker w),
      map row_status (case db (store w) of None \<Rightarrow> [] | Some d \<Rightarrow> sessions d))"

subsection \<open>States used in the examples\<close>

text \<open>The manager after \<^verbatim>\<open>initialize\<close> found no database file.\<close>

definition initialized_manager :: DatabaseManager where
  "initialized_manager = \<lparr>db = Some empty_database, saveTimeout = True\<rparr>"

text \<open>One session on \<^verbatim>\<open>/ws/a.ts\<close>, started at 0 and ended at 10.\<close>

definition closed_example :: database where
  "closed_example =
     \<lparr>sessions = [\<lparr>session_id = 1, file_path = ''/ws/a.ts'', project_path = None,
                   start_time = 0, end_time = Some 10, duration_ms = Some 10\<rparr>],
      file_stats = [''/ws/a.ts'' \<mapsto> \<lparr>fs_file_path = ''/ws/a.ts'', fs_project_path = None,
                                     total_time_ms = 10, last_active = 10\<rparr>],
      sqlite_sequence = 1\<rparr>"

text \<open>One session on \<^verbatim>\<open>/ws/a.ts\<close>, started at 0 and still open.\<close>

definition open_example :: database where
  "open_example =
     \<lparr>sessions = [\<lparr>session_id = 1, file_path = ''/ws/a.ts'', project_path = None,
                   start_time = 0, end_time = None, duration_ms = None\<rparr>],
      file_stats = Map.empty,
      sqlite_sequence = 1\<rparr>"

text \<open>The open row of \<open>open_example\<close>, and calls that end it, reopen the file and end it again.\<close>

definition example_row :: Session where
  "example_row = \<lparr>session_id = 1, file_path = ''/ws/a.ts'', project_path = None,
                   start_time = 0, end_time = None, duration_ms = None\<rparr>"

definition example_calls :: "store_call list" where
  "example_calls = [EndSession 1 10, StartSession ''/ws/a.ts'' None 20, EndSession 2 50]"

text \<open>A clock that does not advance while a handler runs: every read gives \<open>t\<close>.\<close>

definition clock_at :: "int \<Rightarrow> clock" where
  "clock_at t = (\<lambda>site. t)"

text \<open>A tracker that has just been constructed, on an initialized store.\<close>

definition fresh_world :: world where
  "fresh_world =
     \<lparr>tracker = \<lparr>currentSessionId = None, currentFilePath = None, lastActivityTime = 0\<rparr>,
      store = initialized_manager,
      workspaceFolders = Some [''/ws'']\<rparr>"

text \<open>
  An edit of \<^verbatim>\<open>/ws/a.ts\<close> at 5, a switch of the editor to \<^verbatim>\<open>/ws/b.ts\<close> at 9000 and a
  heartbeat at 200000.
\<close>

definition example_events :: "(event \<times> clock) list" where
  "example_events =
     [(DidChangeTextDocument \<lparr>scheme = ''file'', fsPath = ''/ws/a.ts''\<rparr>, clock_at 5),
      (DidChangeActiveTextEditor (Some \<lparr>scheme = ''file'', fsPath = ''/ws/b.ts''\<rparr>), clock_at 9000),
      (HeartbeatTick, clock_at 200000)]"

text \<open>A clock that advances by a millisecond between the reads of one call.\<close>

fun ticking_clock :: clock where
  "ticking_clock AtOnActivity = 1000"
| "ticking_clock AtStoreEndSession = 1001"
| "ticking_clock AtStoreStartSession = 1002"
| "ticking_clock AtStartNewSession = 1003"
| "ticking_clock AtOnEditorChange = 1004"
| "ticking_clock AtWindowBlur = 1000"
| "ticking_clock AtCheckIdle = 1000"

text \<open>
  The tracker holds session 1 of \<open>open_example\<close>, on \<^verbatim>\<open>/ws/a.ts\<close>, last active at 0.
\<close>

definition tracking_world :: world where
  "tracking_world =
     \<lparr>tracker = \<lparr>currentSessionId = Some 1, currentFilePath = Some ''/ws/a.ts'',
                 lastActivityTime = 0\<rparr>,
      store = \<lparr>db = Some open_example, saveTimeout = True\<rparr>,
      workspaceFolders = Some [''/ws'']\<rparr>"

text \<open>
  The same tracker after \<^verbatim>\<open>db.close()\<close> was called on the manager while the tracker held
  its session: the manager has no database any more.
\<close>

definition stuck_world :: world where
  "stuck_world =
     \<lparr>tracker = \<lparr>currentSessionId = Some 1, currentFilePath = Some ''/ws/a.ts'',
                 lastActivityTime = 0\<rparr>,
      store = \<lparr>db = None, saveTimeout = True\<rparr>,
      workspaceFolders = Some [''/ws'']\<rparr>"

text \<open>
  \<^verbatim>\<open>/ws/pkg/a.ts\<close> was tracked while \<^verbatim>\<open>/ws\<close> was the workspace folder (session 1, closed)
  and is tracked again now that the folder is \<^verbatim>\<open>/ws/pkg\<close> (session 2, open).
\<close>

definition project_example :: database where
  "project_example =
     \<lparr>sessions = [\<lparr>session_id = 1, file_path = ''/ws/pkg/a.ts'', project_path = Some ''/ws'',
                   start_time = 0, end_time = Some 10, duration_ms = Some 10\<rparr>,
                  \<lparr>session_id = 2, file_path = ''/ws/pkg/a.ts'', project_path = Some ''/ws/pkg'',
                   start_time = 20, end_time = None, duration_ms = None\<rparr>],
      file_stats = [''/ws/pkg/a.ts'' \<mapsto>
                      \<lparr>fs_file_path = ''/ws/pkg/a.ts'', fs_project_path = Some ''/ws'',
                       total_time_ms = 10, last_active = 10\<rparr>],
      sqlite_sequence = 2\<rparr>"

section \<open>Verification\<close>

subsection \<open>Facts about the SQL statements\<close>

lemmas store_defs =
  initialized_manager_def empty_database_def startSession_def endSession_def Let_def
  next_rowid_def select_session_def update_session_def updateFileStats_def scheduleSave_def

lemmas tracker_defs =
  onActivity_def onEditorChange_def startNewSession_def endCurrentSession_def checkIdle_def
  stop_def onWindowBlur_def getProjectPath_def IDLE_TIMEOUT_MS_def

lemma fold_max_ge: "(a::int) \<le> fold max xs a"
  by (induction xs arbitrary: a) (auto intro: order_trans [OF max.cobounded2])

lemma fold_max_mem: "(x::int) \<in> set xs \<Longrightarrow> x \<le> fold max xs a"
proof (induction xs arbitrary: a)
  case Nil
  then show ?case by simp
next
  case (Cons y ys)
  show ?case
  proof (cases "x = y")
    case True
    have "y \<le> max y a" by simp
    also have "\<dots> \<le> fold max ys (max y a)" by (rule fold_max_ge)
    finally show ?thesis using True by simp
  next
    case False
    with Cons show ?thesis by simp
  qed
qed

lemma next_rowid_fresh: "s \<in> set (sessions d) \<Longrightarrow> session_id s < next_rowid d"
  unfolding next_rowid_def
  using fold_max_mem [of "session_id s" "map session_id (sessions d)" "sqlite_sequence d"]
  by auto

lemma find_update_session:
  "find (\<lambda>s. session_id s = i) (update_session e dur j rows) =
   map_option (\<lambda>s. if session_id s = j then s\<lparr>end_time := Some e, duration_ms := Some dur\<rparr> else s)
     (find (\<lambda>s. session_id s = i) rows)"
  unfolding update_session_def by (induction rows) auto

lemma ongoing_update_session:
  "map session_id (filter (\<lambda>s. end_time s = None) (update_session e dur i rows)) =
   filter (\<lambda>j. j \<noteq> i) (map session_id (filter (\<lambda>s. end_time s = None) rows))"
  unfolding update_session_def by (induction rows) auto

lemma update_session_absent:
  "i \<notin> session_id ` set rows \<Longrightarrow> update_session e dur i rows = rows"
  unfolding update_session_def by (induction rows) auto

lemma closed_sum_update_session:
  assumes "distinct (map session_id rows)"
    and "find (\<lambda>s. session_id s = i) rows = Some row"
    and "end_time row = None"
  shows "sum_duration_ms (filter (\<lambda>s. file_path s = f \<and> end_time s \<noteq> None)
           (update_session e dur i rows)) =
         sum_duration_ms (filter (\<lambda>s. file_path s = f \<and> end_time s \<noteq> None) rows) +
         (if file_path row = f then dur else 0)"
  using assms
proof (induction rows)
  case Nil
  then show ?case by simp
next
  case (Cons x xs)
  show ?case
  proof (cases "session_id x = i")
    case True
    then have row: "row = x" using Cons.prems(2) by simp
    have "i \<notin> session_id ` set xs" using True Cons.prems(1) by auto
    then have "update_session e dur i xs = xs" by (rule update_session_absent)
    then have "update_session e dur i (x # xs) =
               x\<lparr>end_time := Some e, duration_ms := Some dur\<rparr> # xs"
      using True by (simp add: update_session_def)
    then show ?thesis using row Cons.prems(3) by (simp add: sum_duration_ms_def)
  next
    case False
    then have "find (\<lambda>s. session_id s = i) xs = Some row" using Cons.prems(2) by simp
    moreover have "distinct (map session_id xs)" using Cons.prems(1) by simp
    ultimately have IH:
      "sum_duration_ms (filter (\<lambda>s. file_path s = f \<and> end_time s \<noteq> None)
           (update_session e dur i xs)) =
         sum_duration_ms (filter (\<lambda>s. file_path s = f \<and> end_time s \<noteq> None) xs) +
         (if file_path row = f then dur else 0)"
      using Cons.IH Cons.prems(3) by blast
    have "update_session e dur i (x # xs) = x # update_session e dur i xs"
      using False by (simp add: update_session_def)
    then show ?thesis using IH by (auto simp: sum_duration_ms_def)
  qed
qed

subsection \<open>endSession and startSession\<close>

text \<open>What \<^verbatim>\<open>endSession\<close> returns when the row is found, open or not.\<close>

lemma endSession_found:
  assumes "db m = Some d" and "select_session i d = Some row"
  shows "endSession now i m =
         Inr \<lparr>db = Some (d\<lparr>sessions := update_session now (now - start_time row) i (sessions d),
                           file_stats := (file_stats d)(file_path row \<mapsto>
                             (case file_stats d (file_path row) of
                                Some existing \<Rightarrow>
                                  existing\<lparr>total_time_ms :=
                                             total_time_ms existing + (now - start_time row),
                                           last_active := now\<rparr>
                              | None \<Rightarrow>
                                  \<lparr>fs_file_path = file_path row,
                                   fs_project_path = project_path row,
                                   total_time_ms = now - start_time row,
                                   last_active = now\<rparr>))\<rparr>),
              saveTimeout = True\<rparr>"
  using assms
  by (cases m)
     (auto simp: endSession_def Let_def updateFileStats_def scheduleSave_def split: option.splits)

lemma ongoing_ids_endSession:
  assumes "endSession now i m = Inr m'"
  shows "ongoing_ids m' = filter (\<lambda>j. j \<noteq> i) (ongoing_ids m)"
proof -
  from assms obtain d where d: "db m = Some d"
    by (auto simp: endSession_def split: option.splits)
  show ?thesis
  proof (cases "select_session i d")
    case None
    then have "m' = m" using assms d by (simp add: endSession_def)
    moreover have "i \<notin> set (map session_id (sessions d))"
      using None by (auto simp: select_session_def find_None_iff)
    then have "i \<notin> set (ongoing_ids m)"
      using d by (auto simp: ongoing_ids_def getOngoingSessions_def)
    then have "filter (\<lambda>j. j \<noteq> i) (ongoing_ids m) = ongoing_ids m"
      by (induction "ongoing_ids m") (auto simp: filter_id_conv)
    ultimately show ?thesis by simp
  next
    case (Some row)
    then show ?thesis using assms d
      by (auto simp: endSession_def Let_def scheduleSave_def updateFileStats_def ongoing_ids_def
          getOngoingSessions_def ongoing_update_session split: option.splits)
  qed
qed

lemma ongoing_ids_startSession:
  assumes "startSession now f p m = Inr (j, m')"
  shows "ongoing_ids m' = ongoing_ids m @ [j]"
  using assms
  by (auto simp: startSession_def Let_def scheduleSave_def ongoing_ids_def getOngoingSessions_def
      split: option.splits)

lemma endSession_agree:
  assumes d: "db m = Some d" and u: "unique_ids d" and a: "aggregates_agree d"
    and sel: "select_session i d = Some row" and op: "end_time row = None"
    and e: "endSession now i m = Inr m'"
  shows "\<exists>d'. db m' = Some d' \<and> unique_ids d' \<and> aggregates_agree d'"
proof -
  let ?dur = "now - start_time row"
  define d' where
    "d' = d\<lparr>sessions := update_session now ?dur i (sessions d),
            file_stats := (file_stats d)(file_path row \<mapsto>
              (case file_stats d (file_path row) of
                 Some existing \<Rightarrow>
                   existing\<lparr>total_time_ms := total_time_ms existing + ?dur, last_active := now\<rparr>
               | None \<Rightarrow>
                   \<lparr>fs_file_path = file_path row, fs_project_path = project_path row,
                    total_time_ms = ?dur, last_active = now\<rparr>))\<rparr>"
  have m': "db m' = Some d'"
    using endSession_found [OF d sel, of now] e by (simp add: d'_def)
  have ids: "map session_id (sessions d') = map session_id (sessions d)"
    by (simp add: d'_def update_session_def comp_def)
  have "closed_sum f d' = closed_sum f d + (if file_path row = f then ?dur else 0)" for f
    using closed_sum_update_session [of "sessions d" i row f now ?dur] u sel op
    by (simp add: closed_sum_def d'_def unique_ids_def select_session_def)
  moreover have "total_of d' f = total_of d f + (if file_path row = f then ?dur else 0)" for f
    by (auto simp: total_of_def d'_def split: option.splits)
  ultimately have "aggregates_agree d'"
    using a by (simp add: aggregates_agree_def)
  then show ?thesis using m' ids u by (auto simp: unique_ids_def)
qed

lemma startSession_agree:
  assumes d: "db m = Some d" and u: "unique_ids d" and a: "aggregates_agree d"
    and e: "startSession now f p m = Inr (j, m')"
  shows "\<exists>d'. db m' = Some d' \<and> unique_ids d' \<and> aggregates_agree d'"
proof -
  have fresh: "next_rowid d \<notin> session_id ` set (sessions d)"
    using next_rowid_fresh [of _ d] by force
  show ?thesis
    using e d u a fresh
    by (auto simp: startSession_def Let_def scheduleSave_def unique_ids_def aggregates_agree_def
        closed_sum_def total_of_def)
qed

lemma calls_agree:
  assumes "db m = Some d" and "unique_ids d" and "aggregates_agree d" and "ends_open_only cs m"
  shows "\<exists>m' d'. calls cs m = Inr m' \<and> db m' = Some d' \<and> unique_ids d' \<and> aggregates_agree d'"
  using assms
proof (induction cs arbitrary: m d)
  case Nil
  then show ?case by simp
next
  case (Cons c cs)
  show ?case
  proof (cases c)
    case (StartSession f p now)
    obtain j m1 where s: "startSession now f p m = Inr (j, m1)"
      using Cons.prems(1) by (auto simp: startSession_def Let_def)
    obtain d1 where d1: "db m1 = Some d1" "unique_ids d1" "aggregates_agree d1"
      using startSession_agree [OF Cons.prems(1-3) s] by blast
    have "ends_open_only cs m1" using Cons.prems(4) StartSession s by simp
    from Cons.IH [OF d1 this] show ?thesis using StartSession s by simp
  next
    case (EndSession i now)
    have o: "is_open i m" using Cons.prems(4) EndSession by simp
    then obtain row where row: "select_session i d = Some row" "end_time row = None"
      using Cons.prems(1) by (auto simp: is_open_def split: option.splits)
    obtain m1 where s: "endSession now i m = Inr m1"
      using endSession_found [OF Cons.prems(1) row(1)] by blast
    obtain d1 where d1: "db m1 = Some d1" "unique_ids d1" "aggregates_agree d1"
      using endSession_agree [OF Cons.prems(1-3) row s] by blast
    have "ends_open_only cs m1" using Cons.prems(4) EndSession s by simp
    from Cons.IH [OF d1 this] show ?thesis using EndSession s by simp
  qed
qed

text \<open>
  C1, as amended. For a session id that is not in the table \<^verbatim>\<open>sessions\<close>, \<^verbatim>\<open>endSession\<close>
  returns without an error and leaves the manager, hence both tables, as they were; so a
  second call with the same id has the effect of the first alone.
\<close>

theorem endSession_unknown_id:
  "db m = Some d \<Longrightarrow> select_session sessionId d = None \<Longrightarrow>
   endSession now sessionId m = Inr m \<and>
   calls [EndSession sessionId now, EndSession sessionId now'] m =
     calls [EndSession sessionId now] m"
  by (simp add: endSession_def)

theorem endSession_unknown_id_witness:
  "db initialized_manager = Some empty_database \<and> select_session 7 empty_database = None \<and>
   endSession 10 7 initialized_manager = Inr initialized_manager \<and>
   calls [EndSession 7 10, EndSession 7 20] initialized_manager =
     calls [EndSession 7 10] initialized_manager"
proof -
  have h1: "db initialized_manager = Some empty_database"
    by (simp add: initialized_manager_def)
  have h2: "select_session 7 empty_database = None"
    by (simp add: select_session_def empty_database_def)
  from endSession_unknown_id [OF h1 h2, of 10 20] h1 h2 show ?thesis by blast
qed

text \<open>
  C1 as stated fails for a session that is already closed. The session of
  \<open>closed_example\<close> was started at 0 and ended at 10. A second \<^verbatim>\<open>endSession\<close> at 25 finds
  the row by its id alone, overwrites \<^verbatim>\<open>end_time\<close> and \<^verbatim>\<open>duration_ms\<close> with 25 and adds
  25 to the 10 already in \<^verbatim>\<open>file_stats\<close>.
\<close>

theorem endSession_closed_id_counterexample:
  "calls [StartSession ''/ws/a.ts'' None 0, EndSession 1 10] initialized_manager =
     Inr \<lparr>db = Some closed_example, saveTimeout = True\<rparr> \<and>
   endSession 25 1 \<lparr>db = Some closed_example, saveTimeout = True\<rparr> =
     Inr \<lparr>db = Some
            \<lparr>sessions = [\<lparr>session_id = 1, file_path = ''/ws/a.ts'', project_path = None,
                          start_time = 0, end_time = Some 25, duration_ms = Some 25\<rparr>],
             file_stats = [''/ws/a.ts'' \<mapsto> \<lparr>fs_file_path = ''/ws/a.ts'', fs_project_path = None,
                                            total_time_ms = 35, last_active = 25\<rparr>],
             sqlite_sequence = 1\<rparr>,
          saveTimeout = True\<rparr> \<and>
   endSession 25 1 \<lparr>db = Some closed_example, saveTimeout = True\<rparr> \<noteq>
     Inr \<lparr>db = Some closed_example, saveTimeout = True\<rparr>"
  by (simp add: store_defs closed_example_def)

lemma select_update_session_same:
  "select_session i d = Some row \<Longrightarrow>
   find (\<lambda>s. session_id s = i) (update_session e dur i (sessions d)) =
     Some (row\<lparr>end_time := Some e, duration_ms := Some dur\<rparr>)"
proof -
  assume a: "select_session i d = Some row"
  then have "session_id row = i"
    by (auto simp: select_session_def dest: find_Some_iff [THEN iffD1])
  then show ?thesis using a by (simp add: find_update_session select_session_def)
qed

lemma select_update_session_other:
  "j \<noteq> i \<Longrightarrow>
   find (\<lambda>s. session_id s = j) (update_session e dur i rows) = find (\<lambda>s. session_id s = j) rows"
  unfolding update_session_def by (induction rows) auto

text \<open>
  C2. Ending an open session sets \<^verbatim>\<open>end_time\<close> to the clock reading and \<^verbatim>\<open>duration_ms\<close>
  to its distance from \<^verbatim>\<open>start_time\<close>, changes no other session, and updates the one
  row of \<^verbatim>\<open>file_stats\<close> for the session's file: the total grows by the duration (from 0
  when the row is new), \<^verbatim>\<open>last_active\<close> is the end time. Hence, from a store whose totals
  agree with its closed sessions, any sequence of \<^verbatim>\<open>startSession\<close> and of \<^verbatim>\<open>endSession\<close>
  on open sessions returns normally and leaves every total equal to the sum of
  \<^verbatim>\<open>duration_ms\<close> over the closed sessions of that file.
\<close>

theorem endSession_aggregate_update:
  "(db m = Some d \<and> select_session sessionId d = Some row \<and> end_time row = None \<longrightarrow>
      (\<exists>d' stats.
         endSession now sessionId m = Inr \<lparr>db = Some d', saveTimeout = True\<rparr> \<and>
         select_session sessionId d' =
           Some (row\<lparr>end_time := Some now, duration_ms := Some (now - start_time row)\<rparr>) \<and>
         (\<forall>other. other \<noteq> sessionId \<longrightarrow> select_session other d' = select_session other d) \<and>
         file_stats d' (file_path row) = Some stats \<and>
         total_time_ms stats = total_of d (file_path row) + (now - start_time row) \<and>
         last_active stats = now \<and>
         (\<forall>f. f \<noteq> file_path row \<longrightarrow> file_stats d' f = file_stats d f))) \<and>
   (db m = Some d \<and> unique_ids d \<and> aggregates_agree d \<and> ends_open_only cs m \<longrightarrow>
      (\<exists>m' d'.
         calls cs m = Inr m' \<and> db m' = Some d' \<and>
         (\<forall>f stats. file_stats d' f = Some stats \<longrightarrow> total_time_ms stats = closed_sum f d')))"
proof (intro conjI impI)
  assume a: "db m = Some d \<and> select_session sessionId d = Some row \<and> end_time row = None"
  then have d: "db m = Some d" and sel: "select_session sessionId d = Some row" by simp_all
  let ?dur = "now - start_time row"
  define stats where
    "stats = (case file_stats d (file_path row) of
                 Some existing \<Rightarrow>
                   existing\<lparr>total_time_ms := total_time_ms existing + ?dur, last_active := now\<rparr>
               | None \<Rightarrow>
                   \<lparr>fs_file_path = file_path row, fs_project_path = project_path row,
                    total_time_ms = ?dur, last_active = now\<rparr>)"
  define d' where
    "d' = d\<lparr>sessions := update_session now ?dur sessionId (sessions d),
            file_stats := (file_stats d)(file_path row \<mapsto> stats)\<rparr>"
  have 1: "endSession now sessionId m = Inr \<lparr>db = Some d', saveTimeout = True\<rparr>"
    using endSession_found [OF d sel, of now] by (simp add: d'_def stats_def)
  have 2: "select_session sessionId d' =
           Some (row\<lparr>end_time := Some now, duration_ms := Some ?dur\<rparr>)"
    using select_update_session_same [OF sel] by (simp add: d'_def select_session_def)
  have 3: "\<forall>other. other \<noteq> sessionId \<longrightarrow> select_session other d' = select_session other d"
    by (simp add: d'_def select_session_def select_update_session_other)
  have 4: "file_stats d' (file_path row) = Some stats" by (simp add: d'_def)
  have 5: "total_time_ms stats = total_of d (file_path row) + ?dur"
    by (simp add: stats_def total_of_def split: option.splits)
  have 6: "last_active stats = now"
    by (simp add: stats_def split: option.splits)
  have 7: "\<forall>f. f \<noteq> file_path row \<longrightarrow> file_stats d' f = file_stats d f"
    by (simp add: d'_def)
  from 1 2 3 4 5 6 7
  show "\<exists>d' stats.
         endSession now sessionId m = Inr \<lparr>db = Some d', saveTimeout = True\<rparr> \<and>
         select_session sessionId d' =
           Some (row\<lparr>end_time := Some now, duration_ms := Some (now - start_time row)\<rparr>) \<and>
         (\<forall>other. other \<noteq> sessionId \<longrightarrow> select_session other d' = select_session other d) \<and>
         file_stats d' (file_path row) = Some stats \<and>
         total_time_ms stats = total_of d (file_path row) + (now - start_time row) \<and>
         last_active stats = now \<and>
         (\<forall>f. f \<noteq> file_path row \<longrightarrow> file_stats d' f = file_stats d f)"
    by blast
next
  assume a: "db m = Some d \<and> unique_ids d \<and> aggregates_agree d \<and> ends_open_only cs m"
  then obtain m' d' where r: "calls cs m = Inr m'" "db m' = Some d'" "aggregates_agree d'"
    using calls_agree [of m d cs] by blast
  have "\<forall>f stats. file_stats d' f = Some stats \<longrightarrow> total_time_ms stats = closed_sum f d'"
  proof (intro allI impI)
    fix f stats
    assume "file_stats d' f = Some stats"
    then have "total_of d' f = total_time_ms stats" by (simp add: total_of_def)
    then show "total_time_ms stats = closed_sum f d'"
      using r(3) by (simp add: aggregates_agree_def)
  qed
  with r show "\<exists>m' d'.
         calls cs m = Inr m' \<and> db m' = Some d' \<and>
         (\<forall>f stats. file_stats d' f = Some stats \<longrightarrow> total_time_ms stats = closed_sum f d')"
    by blast
qed

theorem endSession_aggregate_update_witness:
  "db \<lparr>db = Some open_example, saveTimeout = True\<rparr> = Some open_example \<and>
   select_session 1 open_example = Some example_row \<and> end_time example_row = None \<and>
   unique_ids open_example \<and> aggregates_agree open_example \<and>
   ends_open_only example_calls \<lparr>db = Some open_example, saveTimeout = True\<rparr> \<and>
   (\<exists>d' stats.
      endSession 10 1 \<lparr>db = Some open_example, saveTimeout = True\<rparr> =
        Inr \<lparr>db = Some d', saveTimeout = True\<rparr> \<and>
      file_stats d' ''/ws/a.ts'' = Some stats \<and> total_time_ms stats = 10 \<and>
      last_active stats = 10) \<and>
   (\<exists>m' d'.
      calls example_calls \<lparr>db = Some open_example, saveTimeout = True\<rparr> = Inr m' \<and>
      db m' = Some d' \<and>
      (\<forall>f stats. file_stats d' f = Some stats \<longrightarrow> total_time_ms stats = closed_sum f d'))"
proof -
  let ?m = "\<lparr>db = Some open_example, saveTimeout = True\<rparr>"
  have h1: "db ?m = Some open_example" by simp
  have h2: "select_session 1 open_example = Some example_row"
    by (simp add: select_session_def open_example_def example_row_def)
  have h3: "end_time example_row = None" by (simp add: example_row_def)
  have h4: "unique_ids open_example" by (simp add: unique_ids_def open_example_def)
  have h5: "aggregates_agree open_example"
    by (simp add: aggregates_agree_def total_of_def closed_sum_def sum_duration_ms_def
        open_example_def)
  have h6: "ends_open_only example_calls ?m"
    by (simp add: example_calls_def is_open_def open_example_def store_defs)
  have t: "total_of open_example ''/ws/a.ts'' = 0" "file_path example_row = ''/ws/a.ts''"
     "start_time example_row = 0"
    by (simp_all add: total_of_def open_example_def example_row_def)
  from endSession_aggregate_update [of ?m open_example 1 example_row 10 example_calls]
    h1 h2 h3 h4 h5 h6 t
  show ?thesis by (simp only: simp_thms) (use t in auto)
qed

subsection \<open>The tracker keeps one session open\<close>

lemma startSession_fresh:
  assumes "startSession now f p m = Inr (j, m')"
  shows "j \<notin> set (ongoing_ids m)"
proof -
  from assms obtain d where d: "db m = Some d" and j: "j = next_rowid d"
    by (auto simp: startSession_def Let_def split: option.splits)
  have "\<forall>s \<in> set (sessions d). session_id s \<noteq> j"
    using next_rowid_fresh [of _ d] j by force
  then show ?thesis using d by (auto simp: ongoing_ids_def getOngoingSessions_def)
qed

lemma endCurrentSession_single:
  assumes "single_open D w"
  shows "single_open D (world_of (endCurrentSession clk w))"
proof (cases "currentSessionId (tracker w)")
  case None
  then show ?thesis using assms by (simp add: endCurrentSession_def)
next
  case (Some i)
  show ?thesis
  proof (cases "endSession (clk AtStoreEndSession) i (store w)")
    case (Inl e)
    then show ?thesis using Some assms by (simp add: endCurrentSession_def)
  next
    case (Inr m)
    have "ongoing_ids m = filter (\<lambda>j. j \<noteq> i) (ongoing_ids (store w))"
      using Inr by (rule ongoing_ids_endSession)
    moreover have "ongoing_ids (store w) = D @ [i]" "i \<notin> set D"
      using assms Some by (simp_all add: single_open_def)
    ultimately have "ongoing_ids m = D" by (auto simp: filter_id_conv)
    then show ?thesis using Some Inr by (simp add: endCurrentSession_def single_open_def)
  qed
qed

lemma endCurrentSession_Done:
  assumes "single_open D w" and "endCurrentSession clk w = Done w1"
  shows "ongoing_ids (store w1) = D \<and> currentSessionId (tracker w1) = None"
proof -
  have "single_open D w1" using endCurrentSession_single [OF assms(1), of clk] assms(2) by simp
  moreover have "currentSessionId (tracker w1) = None"
    using assms(2) by (auto simp: endCurrentSession_def split: option.splits sum.splits)
  ultimately show ?thesis by (simp add: single_open_def)
qed

lemma startNewSession_single:
  assumes "single_open D w"
  shows "single_open D (world_of (startNewSession clk f w))"
proof (cases "endCurrentSession clk w")
  case (Thrown e w1)
  then have "single_open D w1" using endCurrentSession_single [OF assms, of clk] by simp
  then show ?thesis using Thrown by (simp add: startNewSession_def)
next
  case (Done w1)
  have w1: "single_open D w1" using endCurrentSession_single [OF assms, of clk] Done by simp
  have e: "ongoing_ids (store w1) = D" using endCurrentSession_Done [OF assms Done] by simp
  show ?thesis
  proof (cases "startSession (clk AtStoreStartSession) f
                  (getProjectPath (workspaceFolders w1) f) (store w1)")
    case (Inl err)
    then show ?thesis using Done w1 by (simp add: startNewSession_def)
  next
    case (Inr r)
    obtain j m where r: "r = (j, m)" by (cases r)
    have "ongoing_ids m = ongoing_ids (store w1) @ [j]"
      using Inr r ongoing_ids_startSession by simp
    moreover have "j \<notin> set (ongoing_ids (store w1))"
      using Inr r startSession_fresh by simp
    ultimately show ?thesis using Done Inr r e by (simp add: startNewSession_def single_open_def)
  qed
qed

lemma single_open_lastActivityTime:
  "single_open D (w\<lparr>tracker := (tracker w)\<lparr>lastActivityTime := t\<rparr>\<rparr>) = single_open D w"
  by (simp add: single_open_def split: option.splits)

lemma onActivity_single:
  "single_open D w \<Longrightarrow> single_open D (world_of (onActivity clk f w))"
  using startNewSession_single
    [of D "w\<lparr>tracker := (tracker w)\<lparr>lastActivityTime := clk AtOnActivity\<rparr>\<rparr>" clk f]
  by (simp add: onActivity_def Let_def single_open_lastActivityTime)

lemma onEditorChange_single:
  "single_open D w \<Longrightarrow> single_open D (world_of (onEditorChange clk f w))"
  using startNewSession_single [of D w clk f]
  by (cases "startNewSession clk f w")
     (auto simp: onEditorChange_def single_open_lastActivityTime)

lemma checkIdle_single:
  "single_open D w \<Longrightarrow> single_open D (world_of (checkIdle clk w))"
  using endCurrentSession_single [of D w clk] by (simp add: checkIdle_def Let_def)

lemma handle_single:
  "single_open D w \<Longrightarrow> single_open D (world_of (handle e clk w))"
  by (cases e)
     (auto simp: onActivity_single onEditorChange_single checkIdle_single stop_def
        endCurrentSession_single onWindowBlur_def single_open_lastActivityTime
        split: option.splits)

lemma run_single: "single_open D w \<Longrightarrow> single_open D (run evs w)"
proof (induction evs arbitrary: w)
  case Nil
  then show ?case by simp
next
  case (Cons a evs)
  obtain e clk where a: "a = (e, clk)" by (cases a)
  show ?case using Cons a by (simp add: handle_single)
qed

text \<open>
  C3. A tracker that holds no session, on any store, is run through any sequence of
  events (edits, selection changes, editor changes, window focus and blur, heartbeats,
  stop), whether or not a handler throws. Afterwards the open rows of the store are those
  that were open before the tracker ran, followed by the session the tracker holds, if it
  holds one: the tracker never has more than one session of its own open, and a handler
  that starts a session has closed the one before.
\<close>

theorem tracker_single_open:
  "currentSessionId (tracker w) = None \<Longrightarrow>
   ongoing_ids (store (run evs w)) =
     ongoing_ids (store w) @
       (case currentSessionId (tracker (run evs w)) of None \<Rightarrow> [] | Some sessionId \<Rightarrow> [sessionId]) \<and>
   length (ongoing_ids (store (run evs w))) \<le> length (ongoing_ids (store w)) + 1"
proof -
  assume "currentSessionId (tracker w) = None"
  then have "single_open (ongoing_ids (store w)) w" by (simp add: single_open_def)
  then have s: "single_open (ongoing_ids (store w)) (run evs w)" by (rule run_single)
  then show ?thesis
    by (simp add: single_open_def split: option.splits)
qed

theorem tracker_single_open_witness:
  "currentSessionId (tracker fresh_world) = None \<and>
   ongoing_ids (store (run example_events fresh_world)) =
     ongoing_ids (store fresh_world) @
       (case currentSessionId (tracker (run example_events fresh_world)) of
          None \<Rightarrow> [] | Some sessionId \<Rightarrow> [sessionId]) \<and>
   length (ongoing_ids (store (run example_events fresh_world))) \<le>
     length (ongoing_ids (store fresh_world)) + 1"
proof -
  have h: "currentSessionId (tracker fresh_world) = None"
    by (simp add: fresh_world_def)
  from tracker_single_open [OF h, of example_events] h show ?thesis by blast
qed

subsection \<open>project_path of an aggregate row\<close>

text \<open>
  C4, as amended. When \<^verbatim>\<open>endSession\<close> finds a row of \<^verbatim>\<open>file_stats\<close> for the file of the
  session, the \<^verbatim>\<open>UPDATE\<close> sets \<^verbatim>\<open>total_time_ms\<close> and \<^verbatim>\<open>last_active\<close> only: the row keeps the
  \<^verbatim>\<open>project_path\<close> it has. The session's \<^verbatim>\<open>project_path\<close> is stored when the row is created.
\<close>

theorem endSession_project_path:
  "(db m = Some d \<and> select_session sessionId d = Some row \<and>
    file_stats d (file_path row) = Some existing \<longrightarrow>
      (\<exists>d' stats.
         endSession now sessionId m = Inr \<lparr>db = Some d', saveTimeout = True\<rparr> \<and>
         file_stats d' (file_path row) = Some stats \<and>
         fs_project_path stats = fs_project_path existing)) \<and>
   (db m = Some d \<and> select_session sessionId d = Some row \<and>
    file_stats d (file_path row) = None \<longrightarrow>
      (\<exists>d' stats.
         endSession now sessionId m = Inr \<lparr>db = Some d', saveTimeout = True\<rparr> \<and>
         file_stats d' (file_path row) = Some stats \<and>
         fs_project_path stats = project_path row))"
proof (intro conjI impI)
  assume a: "db m = Some d \<and> select_session sessionId d = Some row \<and>
    file_stats d (file_path row) = Some existing"
  then have "db m = Some d" "select_session sessionId d = Some row" by simp_all
  from endSession_found [OF this, of now] a
  show "\<exists>d' stats.
         endSession now sessionId m = Inr \<lparr>db = Some d', saveTimeout = True\<rparr> \<and>
         file_stats d' (file_path row) = Some stats \<and>
         fs_project_path stats = fs_project_path existing"
    by simp
next
  assume a: "db m = Some d \<and> select_session sessionId d = Some row \<and>
    file_stats d (file_path row) = None"
  then have "db m = Some d" "select_session sessionId d = Some row" by simp_all
  from endSession_found [OF this, of now] a
  show "\<exists>d' stats.
         endSession now sessionId m = Inr \<lparr>db = Some d', saveTimeout = True\<rparr> \<and>
         file_stats d' (file_path row) = Some stats \<and>
         fs_project_path stats = project_path row"
    by simp
qed

theorem endSession_project_path_witness:
  "db \<lparr>db = Some project_example, saveTimeout = True\<rparr> = Some project_example \<and>
   select_session 2 project_example =
     Some \<lparr>session_id = 2, file_path = ''/ws/pkg/a.ts'', project_path = Some ''/ws/pkg'',
           start_time = 20, end_time = None, duration_ms = None\<rparr> \<and>
   file_stats project_example ''/ws/pkg/a.ts'' =
     Some \<lparr>fs_file_path = ''/ws/pkg/a.ts'', fs_project_path = Some ''/ws'',
           total_time_ms = 10, last_active = 10\<rparr> \<and>
   (\<exists>d' stats.
      endSession 50 2 \<lparr>db = Some project_example, saveTimeout = True\<rparr> =
        Inr \<lparr>db = Some d', saveTimeout = True\<rparr> \<and>
      file_stats d' ''/ws/pkg/a.ts'' = Some stats \<and> fs_project_path stats = Some ''/ws'') \<and>
   db \<lparr>db = Some open_example, saveTimeout = True\<rparr> = Some open_example \<and>
   select_session 1 open_example = Some example_row \<and>
   file_stats open_example (file_path example_row) = None \<and>
   (\<exists>d' stats.
      endSession 10 1 \<lparr>db = Some open_example, saveTimeout = True\<rparr> =
        Inr \<lparr>db = Some d', saveTimeout = True\<rparr> \<and>
      file_stats d' (file_path example_row) = Some stats \<and>
      fs_project_path stats = project_path example_row)"
proof -
  let ?row = "\<lparr>session_id = 2, file_path = ''/ws/pkg/a.ts'', project_path = Some ''/ws/pkg'',
           start_time = 20, end_time = None, duration_ms = None\<rparr>"
  let ?old = "\<lparr>fs_file_path = ''/ws/pkg/a.ts'', fs_project_path = Some ''/ws'',
           total_time_ms = 10, last_active = 10\<rparr>"
  have a: "db \<lparr>db = Some project_example, saveTimeout = True\<rparr> = Some project_example \<and>
     select_session 2 project_example = Some ?row \<and>
     file_stats project_example (file_path ?row) = Some ?old"
    by (simp add: project_example_def select_session_def)
  have b: "db \<lparr>db = Some open_example, saveTimeout = True\<rparr> = Some open_example \<and>
     select_session 1 open_example = Some example_row \<and>
     file_stats open_example (file_path example_row) = None"
    by (simp add: open_example_def example_row_def select_session_def)
  have 1: "\<exists>d' stats.
      endSession 50 2 \<lparr>db = Some project_example, saveTimeout = True\<rparr> =
        Inr \<lparr>db = Some d', saveTimeout = True\<rparr> \<and>
      file_stats d' ''/ws/pkg/a.ts'' = Some stats \<and> fs_project_path stats = Some ''/ws''"
    using endSession_project_path
      [of "\<lparr>db = Some project_example, saveTimeout = True\<rparr>" project_example 2 ?row ?old 50] a
    by simp
  have 2: "\<exists>d' stats.
      endSession 10 1 \<lparr>db = Some open_example, saveTimeout = True\<rparr> =
        Inr \<lparr>db = Some d', saveTimeout = True\<rparr> \<and>
      file_stats d' (file_path example_row) = Some stats \<and>
      fs_project_path stats = project_path example_row"
    using endSession_project_path
      [of "\<lparr>db = Some open_example, saveTimeout = True\<rparr>" open_example 1 example_row _ 10] b
    by simp
  from a b 1 2 show ?thesis by simp
qed

text \<open>
  C4 as stated fails: session 2 has \<^verbatim>\<open>project_path\<close> \<^verbatim>\<open>/ws/pkg\<close>, the row of its file has
  \<^verbatim>\<open>/ws\<close> from session 1, and after \<^verbatim>\<open>endSession\<close> the row still has \<^verbatim>\<open>/ws\<close>.
\<close>

theorem endSession_project_path_counterexample:
  "calls [StartSession ''/ws/pkg/a.ts'' (Some ''/ws'') 0, EndSession 1 10,
          StartSession ''/ws/pkg/a.ts'' (Some ''/ws/pkg'') 20] initialized_manager =
     Inr \<lparr>db = Some project_example, saveTimeout = True\<rparr> \<and>
   map_option project_path (select_session 2 project_example) = Some (Some ''/ws/pkg'') \<and>
   endSession 50 2 \<lparr>db = Some project_example, saveTimeout = True\<rparr> =
     Inr \<lparr>db = Some
            \<lparr>sessions =
               [\<lparr>session_id = 1, file_path = ''/ws/pkg/a.ts'', project_path = Some ''/ws'',
                 start_time = 0, end_time = Some 10, duration_ms = Some 10\<rparr>,
                \<lparr>session_id = 2, file_path = ''/ws/pkg/a.ts'', project_path = Some ''/ws/pkg'',
                 start_time = 20, end_time = Some 50, duration_ms = Some 30\<rparr>],
             file_stats = [''/ws/pkg/a.ts'' \<mapsto>
                             \<lparr>fs_file_path = ''/ws/pkg/a.ts'', fs_project_path = Some ''/ws'',
                              total_time_ms = 40, last_active = 50\<rparr>],
             sqlite_sequence = 2\<rparr>,
          saveTimeout = True\<rparr>"
  by (simp add: store_defs project_example_def)

subsection \<open>checkIdle when the store throws\<close>

text \<open>
  C5, as amended. \<^verbatim>\<open>endCurrentSession\<close> calls \<^verbatim>\<open>endSession\<close> outside any \<^verbatim>\<open>try\<close>. When the
  manager has no database, \<^verbatim>\<open>endSession\<close> throws; the exception leaves \<^verbatim>\<open>checkIdle\<close>, the
  two assignments that clear the session are not reached, and \<^verbatim>\<open>isTracking\<close> still
  answers true.
\<close>

theorem checkIdle_store_failure:
  "db (store w) = None \<Longrightarrow> currentSessionId (tracker w) = Some sessionId \<Longrightarrow>
   IDLE_TIMEOUT_MS \<le> clk AtCheckIdle - lastActivityTime (tracker w) \<Longrightarrow>
   endSession (clk AtStoreEndSession) sessionId (store w) = Inl DatabaseNotInitialized \<and>
   checkIdle clk w = Thrown DatabaseNotInitialized w \<and>
   isTracking (world_of (checkIdle clk w))"
  by (simp add: checkIdle_def endCurrentSession_def endSession_def isTracking_def Let_def)

theorem checkIdle_store_failure_witness:
  "db (store stuck_world) = None \<and> currentSessionId (tracker stuck_world) = Some 1 \<and>
   IDLE_TIMEOUT_MS \<le> (clock_at 120000) AtCheckIdle - lastActivityTime (tracker stuck_world) \<and>
   checkIdle (clock_at 120000) stuck_world = Thrown DatabaseNotInitialized stuck_world \<and>
   isTracking (world_of (checkIdle (clock_at 120000) stuck_world))"
proof -
  have h1: "db (store stuck_world) = None" by (simp add: stuck_world_def)
  have h2: "currentSessionId (tracker stuck_world) = Some 1" by (simp add: stuck_world_def)
  have h3: "IDLE_TIMEOUT_MS \<le>
            (clock_at 120000) AtCheckIdle - lastActivityTime (tracker stuck_world)"
    by (simp add: stuck_world_def IDLE_TIMEOUT_MS_def clock_at_def)
  from checkIdle_store_failure [of stuck_world 1 "clock_at 120000"] h1 h2 h3
  show ?thesis by blast
qed

text \<open>
  C5 as stated fails. \<open>stuck_world\<close> is \<open>tracking_world\<close> after \<^verbatim>\<open>db.close()\<close>. The session
  is idle, \<^verbatim>\<open>endSession\<close> throws, and \<^verbatim>\<open>checkIdle\<close> throws and clears nothing.
\<close>

theorem checkIdle_store_failure_counterexample:
  "close (\<lambda>sessionId. 50) (store tracking_world) = Inr (store stuck_world) \<and>
   tracker stuck_world = tracker tracking_world \<and>
   endSession 120000 1 (store stuck_world) = Inl DatabaseNotInitialized \<and>
   checkIdle (clock_at 120000) stuck_world = Thrown DatabaseNotInitialized stuck_world \<and>
   currentSessionId (tracker (world_of (checkIdle (clock_at 120000) stuck_world))) = Some 1 \<and>
   currentFilePath (tracker (world_of (checkIdle (clock_at 120000) stuck_world))) =
     Some ''/ws/a.ts'' \<and>
   isTracking (world_of (checkIdle (clock_at 120000) stuck_world))"
  by (simp add: stuck_world_def tracking_world_def open_example_def tracker_defs store_defs
      close_def getOngoingSessions_def isTracking_def clock_at_def)

subsection \<open>Activity on another file\<close>

lemma find_append_found:
  "find P xs = Some x \<Longrightarrow> find P (xs @ ys) = Some x"
  by (induction xs) (auto split: if_splits)

lemma find_append_absent:
  "find P xs = None \<Longrightarrow> find P (xs @ ys) = find P ys"
  by (induction xs) (auto split: if_splits)

lemma next_rowid_absent: "find (\<lambda>s. session_id s = next_rowid d) (sessions d) = None"
  using next_rowid_fresh [of _ d] by (force simp: find_None_iff)

text \<open>
  C6, as amended. With a session open for \<open>fileA\<close> whose row is in the store,
  \<^verbatim>\<open>onActivity(fileB)\<close> for another file ends that row with \<^verbatim>\<open>end_time\<close> the clock reading
  taken inside \<^verbatim>\<open>endSession\<close>, and inserts a row with a new id for \<open>fileB\<close> whose
  \<^verbatim>\<open>start_time\<close> is the reading taken inside \<^verbatim>\<open>startSession\<close>; the tracker then holds the
  new session. The three readings of the call are separate; where they coincide, both
  times are the timestamp of the call.
\<close>

theorem onActivity_switch:
  assumes d: "db (store w) = Some d"
    and cur: "currentSessionId (tracker w) = Some sessionId"
    and fa: "currentFilePath (tracker w) = Some fileA"
    and ne: "fileB \<noteq> fileA"
    and sel: "select_session sessionId d = Some row"
  shows "\<exists>d' newId.
           onActivity clk fileB w =
             Done (w\<lparr>store := \<lparr>db = Some d', saveTimeout = True\<rparr>,
                     tracker := \<lparr>currentSessionId = Some newId,
                                 currentFilePath = Some fileB,
                                 lastActivityTime = clk AtStartNewSession\<rparr>\<rparr>) \<and>
           newId \<noteq> sessionId \<and>
           select_session sessionId d' =
             Some (row\<lparr>end_time := Some (clk AtStoreEndSession),
                       duration_ms := Some (clk AtStoreEndSession - start_time row)\<rparr>) \<and>
           select_session newId d' =
             Some \<lparr>session_id = newId, file_path = fileB,
                   project_path = getProjectPath (workspaceFolders w) fileB,
                   start_time = clk AtStoreStartSession,
                   end_time = None, duration_ms = None\<rparr>"
proof -
  let ?e = "clk AtStoreEndSession"
  let ?dur = "?e - start_time row"
  define d1 where
    "d1 = d\<lparr>sessions := update_session ?e ?dur sessionId (sessions d),
            file_stats := (file_stats d)(file_path row \<mapsto>
              (case file_stats d (file_path row) of
                 Some existing \<Rightarrow>
                   existing\<lparr>total_time_ms := total_time_ms existing + ?dur, last_active := ?e\<rparr>
               | None \<Rightarrow>
                   \<lparr>fs_file_path = file_path row, fs_project_path = project_path row,
                    total_time_ms = ?dur, last_active = ?e\<rparr>))\<rparr>"
  define new where
    "new = \<lparr>session_id = next_rowid d1, file_path = fileB,
            project_path = getProjectPath (workspaceFolders w) fileB,
            start_time = clk AtStoreStartSession, end_time = None, duration_ms = None\<rparr>"
  define d2 where "d2 = d1\<lparr>sessions := sessions d1 @ [new], sqlite_sequence := next_rowid d1\<rparr>"
  have e: "endSession ?e sessionId (store w) = Inr \<lparr>db = Some d1, saveTimeout = True\<rparr>"
    using endSession_found [OF d sel, of ?e] by (simp add: d1_def)
  have s: "startSession (clk AtStoreStartSession) fileB (getProjectPath (workspaceFolders w) fileB)
             \<lparr>db = Some d1, saveTimeout = True\<rparr> =
           Inr (next_rowid d1, \<lparr>db = Some d2, saveTimeout = True\<rparr>)"
    by (simp add: startSession_def Let_def scheduleSave_def d2_def new_def)
  have 1: "onActivity clk fileB w =
             Done (w\<lparr>store := \<lparr>db = Some d2, saveTimeout = True\<rparr>,
                     tracker := \<lparr>currentSessionId = Some (next_rowid d1),
                                 currentFilePath = Some fileB,
                                 lastActivityTime = clk AtStartNewSession\<rparr>\<rparr>)"
    using cur fa ne e s
    by (simp add: onActivity_def Let_def startNewSession_def endCurrentSession_def)
  have old: "find (\<lambda>s. session_id s = sessionId) (sessions d1) =
             Some (row\<lparr>end_time := Some ?e, duration_ms := Some ?dur\<rparr>)"
    using select_update_session_same [OF sel] by (simp add: d1_def)
  then have 3: "select_session sessionId d2 =
             Some (row\<lparr>end_time := Some ?e, duration_ms := Some ?dur\<rparr>)"
    by (simp add: select_session_def d2_def find_append_found)
  have 4: "select_session (next_rowid d1) d2 = Some new"
    using next_rowid_absent [of d1]
    by (simp add: select_session_def d2_def find_append_absent new_def)
  have 2: "next_rowid d1 \<noteq> sessionId"
    using old next_rowid_absent [of d1] by auto
  from 1 2 3 4 show ?thesis unfolding new_def by blast
qed

theorem onActivity_switch_witness:
  "db (store tracking_world) = Some open_example \<and>
   currentSessionId (tracker tracking_world) = Some 1 \<and>
   currentFilePath (tracker tracking_world) = Some ''/ws/a.ts'' \<and>
   ''/ws/b.ts'' \<noteq> ''/ws/a.ts'' \<and>
   select_session 1 open_example = Some example_row \<and>
   (\<exists>d' newId.
      onActivity ticking_clock ''/ws/b.ts'' tracking_world =
        Done (tracking_world\<lparr>store := \<lparr>db = Some d', saveTimeout = True\<rparr>,
                tracker := \<lparr>currentSessionId = Some newId,
                            currentFilePath = Some ''/ws/b.ts'',
                            lastActivityTime = 1003\<rparr>\<rparr>) \<and>
      newId \<noteq> 1 \<and>
      select_session 1 d' = Some (example_row\<lparr>end_time := Some 1001, duration_ms := Some 1001\<rparr>) \<and>
      select_session newId d' =
        Some \<lparr>session_id = newId, file_path = ''/ws/b.ts'', project_path = Some ''/ws'',
              start_time = 1002, end_time = None, duration_ms = None\<rparr>)"
proof -
  have h1: "db (store tracking_world) = Some open_example" by (simp add: tracking_world_def)
  have h2: "currentSessionId (tracker tracking_world) = Some 1" by (simp add: tracking_world_def)
  have h3: "currentFilePath (tracker tracking_world) = Some ''/ws/a.ts''"
    by (simp add: tracking_world_def)
  have h4: "''/ws/b.ts'' \<noteq> ''/ws/a.ts''" by simp
  have h5: "select_session 1 open_example = Some example_row"
    by (simp add: select_session_def open_example_def example_row_def)
  have p: "getProjectPath (workspaceFolders tracking_world) ''/ws/b.ts'' = Some ''/ws''"
    by (simp add: getProjectPath_def tracking_world_def)
  have s: "start_time example_row = 0" by (simp add: example_row_def)
  from onActivity_switch [OF h1 h2 h3 h4 h5, of ticking_clock] h1 h2 h3 h4 h5
  show ?thesis by (simp add: p s)
qed

text \<open>
  C6 as stated fails when the clock advances during the call: the call is stamped 1000,
  the session of \<^verbatim>\<open>/ws/a.ts\<close> ends at 1001 and the session of \<^verbatim>\<open>/ws/b.ts\<close> starts at 1002.
\<close>

theorem onActivity_switch_counterexample:
  "onActivity ticking_clock ''/ws/b.ts'' tracking_world =
     Done \<lparr>tracker = \<lparr>currentSessionId = Some 2, currentFilePath = Some ''/ws/b.ts'',
                      lastActivityTime = 1003\<rparr>,
           store = \<lparr>db = Some
             \<lparr>sessions =
                [\<lparr>session_id = 1, file_path = ''/ws/a.ts'', project_path = None,
                  start_time = 0, end_time = Some 1001, duration_ms = Some 1001\<rparr>,
                 \<lparr>session_id = 2, file_path = ''/ws/b.ts'', project_path = Some ''/ws'',
                  start_time = 1002, end_time = None, duration_ms = None\<rparr>],
              file_stats = [''/ws/a.ts'' \<mapsto>
                \<lparr>fs_file_path = ''/ws/a.ts'', fs_project_path = None,
                 total_time_ms = 1001, last_active = 1001\<rparr>],
              sqlite_sequence = 2\<rparr>, saveTimeout = True\<rparr>,
           workspaceFolders = Some [''/ws'']\<rparr> \<and>
   ticking_clock AtOnActivity = 1000"
  by (simp add: tracking_world_def open_example_def tracker_defs store_defs)

subsection \<open>Repeated activity on the same file\<close>

text \<open>
  C7. With a session open for \<open>filePath\<close>, \<^verbatim>\<open>onActivity(filePath)\<close> returns the world it
  was given with \<^verbatim>\<open>lastActivityTime\<close> set to the reading: the manager, hence both tables
  and the row of the session with its \<^verbatim>\<open>start_time\<close>, and the current session id are as
  before.
\<close>

theorem onActivity_same_file:
  "currentFilePath (tracker w) = Some filePath \<Longrightarrow>
   currentSessionId (tracker w) = Some sessionId \<Longrightarrow>
   onActivity clk filePath w =
     Done (w\<lparr>tracker := (tracker w)\<lparr>lastActivityTime := clk AtOnActivity\<rparr>\<rparr>) \<and>
   store (world_of (onActivity clk filePath w)) = store w \<and>
   currentSessionId (tracker (world_of (onActivity clk filePath w))) = Some sessionId \<and>
   currentFilePath (tracker (world_of (onActivity clk filePath w))) = Some filePath \<and>
   lastActivityTime (tracker (world_of (onActivity clk filePath w))) = clk AtOnActivity"
  by (simp add: onActivity_def Let_def)

theorem onActivity_same_file_witness:
  "currentFilePath (tracker tracking_world) = Some ''/ws/a.ts'' \<and>
   currentSessionId (tracker tracking_world) = Some 1 \<and>
   onActivity (clock_at 700) ''/ws/a.ts'' tracking_world =
     Done (tracking_world\<lparr>tracker := (tracker tracking_world)\<lparr>lastActivityTime := 700\<rparr>\<rparr>) \<and>
   store (world_of (onActivity (clock_at 700) ''/ws/a.ts'' tracking_world)) = store tracking_world"
proof -
  have h1: "currentFilePath (tracker tracking_world) = Some ''/ws/a.ts''"
    by (simp add: tracking_world_def)
  have h2: "currentSessionId (tracker tracking_world) = Some 1"
    by (simp add: tracking_world_def)
  from onActivity_same_file [OF h1 h2, of "clock_at 700"] h1 h2 show ?thesis
    by (simp add: clock_at_def)
qed

subsection \<open>The idle check\<close>

lemma status_update_session:
  "map row_status (update_session e dur i rows) =
   map (\<lambda>s. (session_id s, file_path s, end_time s \<noteq> None \<or> session_id s = i)) rows"
  unfolding update_session_def row_status_def by (induction rows) auto

lemma ids_update_session:
  "map session_id (update_session e dur i rows) = map session_id rows"
  unfolding update_session_def by (induction rows) auto

lemma status_lastActivityTime:
  "session_status (w\<lparr>tracker := (tracker w)\<lparr>lastActivityTime := t\<rparr>\<rparr>) = session_status w"
  by (simp add: session_status_def)

lemma endCurrentSession_status:
  "session_status (world_of (endCurrentSession clk w)) =
   session_status (world_of (endCurrentSession clk' w))"
  by (cases "db (store w)")
     (auto simp: endCurrentSession_def endSession_def session_status_def Let_def
        updateFileStats_def scheduleSave_def status_update_session
        split: option.splits)

lemma startNewSession_status:
  "session_status (world_of (startNewSession clk f w)) =
   session_status (world_of (startNewSession clk' f w))"
  by (cases "db (store w)")
     (auto simp: startNewSession_def endCurrentSession_def endSession_def startSession_def
        session_status_def Let_def next_rowid_def ids_update_session
        updateFileStats_def scheduleSave_def status_update_session row_status_def
        split: option.splits)

lemma onActivity_status:
  "session_status (world_of (onActivity clk f w)) =
   session_status (world_of (onActivity clk' f w))"
proof -
  let ?w = "w\<lparr>tracker := (tracker w)\<lparr>lastActivityTime := clk AtOnActivity\<rparr>\<rparr>"
  let ?w' = "w\<lparr>tracker := (tracker w)\<lparr>lastActivityTime := clk' AtOnActivity\<rparr>\<rparr>"
  have "session_status (world_of (startNewSession clk f ?w)) =
        session_status (world_of (startNewSession clk' f ?w'))"
    by (cases "db (store w)")
     (auto simp: startNewSession_def endCurrentSession_def endSession_def startSession_def
        session_status_def Let_def next_rowid_def ids_update_session
        updateFileStats_def scheduleSave_def status_update_session row_status_def
        split: option.splits)
  then show ?thesis
    by (auto simp: onActivity_def Let_def status_lastActivityTime)
qed

lemma onEditorChange_status:
  "session_status (world_of (onEditorChange clk f w)) =
   session_status (world_of (onEditorChange clk' f w))"
  using startNewSession_status [of clk f w clk']
  by (cases "startNewSession clk f w"; cases "startNewSession clk' f w")
     (auto simp: onEditorChange_def session_status_def)

lemma handle_status:
  "e \<noteq> HeartbeatTick \<Longrightarrow>
   session_status (world_of (handle e clk w)) = session_status (world_of (handle e clk' w))"
  by (cases e)
     (auto simp: onActivity_status onEditorChange_status endCurrentSession_status stop_def
        onWindowBlur_def status_lastActivityTime split: option.splits)


lemma endSession_closes:
  assumes "db m \<noteq> None"
  shows "\<exists>m'. endSession now i m = Inr m' \<and> db m' \<noteq> None \<and> i \<notin> set (ongoing_ids m')"
proof -
  from assms obtain d where d: "db m = Some d" by auto
  obtain m' where m': "endSession now i m = Inr m'"
    using d by (cases "select_session i d") (auto simp: endSession_def Let_def)
  have "ongoing_ids m' = filter (\<lambda>j. j \<noteq> i) (ongoing_ids m)"
    using m' by (rule ongoing_ids_endSession)
  then have "i \<notin> set (ongoing_ids m')" by simp
  moreover have "db m' \<noteq> None"
    using m' d
    by (cases "select_session i d")
       (auto simp: endSession_def Let_def updateFileStats_def scheduleSave_def split: option.splits)
  ultimately show ?thesis using m' by blast
qed

text \<open>
  C8. The timeout is two minutes. On an initialized store, \<^verbatim>\<open>checkIdle\<close> turns a tracking
  tracker into one that is not tracking exactly when the reading is at least the timeout
  after \<^verbatim>\<open>lastActivityTime\<close>; it then ends the current session in the store and clears
  the tracker. With no session or below the threshold it returns the world unchanged. No
  other handler looks at elapsed time: which sessions exist, which are ended and which
  one the tracker holds after the handler does not depend on the clock.
\<close>

theorem checkIdle_closes_iff:
  "IDLE_TIMEOUT_MS = 120000 \<and>
   (db (store w) \<noteq> None \<longrightarrow>
      (isTracking w \<and> \<not> isTracking (world_of (checkIdle clk w))) =
      (isTracking w \<and> IDLE_TIMEOUT_MS \<le> clk AtCheckIdle - lastActivityTime (tracker w))) \<and>
   (currentSessionId (tracker w) = None \<or>
    clk AtCheckIdle - lastActivityTime (tracker w) < IDLE_TIMEOUT_MS \<longrightarrow>
      checkIdle clk w = Done w) \<and>
   (db (store w) \<noteq> None \<and> currentSessionId (tracker w) = Some sessionId \<and>
    IDLE_TIMEOUT_MS \<le> clk AtCheckIdle - lastActivityTime (tracker w) \<longrightarrow>
      (\<exists>m. endSession (clk AtStoreEndSession) sessionId (store w) = Inr m \<and>
           sessionId \<notin> set (ongoing_ids m) \<and>
           checkIdle clk w =
             Done (w\<lparr>store := m,
                     tracker := (tracker w)\<lparr>currentSessionId := None,
                                            currentFilePath := None\<rparr>\<rparr>))) \<and>
   (e \<noteq> HeartbeatTick \<longrightarrow>
      session_status (world_of (handle e clk w)) = session_status (world_of (handle e clk' w)))"
proof (intro conjI impI)
  show "IDLE_TIMEOUT_MS = 120000" by (simp add: IDLE_TIMEOUT_MS_def)
next
  assume a: "db (store w) \<noteq> None"
  show "(isTracking w \<and> \<not> isTracking (world_of (checkIdle clk w))) =
        (isTracking w \<and> IDLE_TIMEOUT_MS \<le> clk AtCheckIdle - lastActivityTime (tracker w))"
  proof (cases "currentSessionId (tracker w)")
    case None
    then show ?thesis by (simp add: isTracking_def)
  next
    case (Some i)
    obtain m where "endSession (clk AtStoreEndSession) i (store w) = Inr m"
      using endSession_closes [OF a] by blast
    then show ?thesis using Some
      by (simp add: isTracking_def checkIdle_def Let_def endCurrentSession_def)
  qed
next
  assume "currentSessionId (tracker w) = None \<or>
    clk AtCheckIdle - lastActivityTime (tracker w) < IDLE_TIMEOUT_MS"
  then show "checkIdle clk w = Done w" by (auto simp: checkIdle_def Let_def)
next
  assume a: "db (store w) \<noteq> None \<and> currentSessionId (tracker w) = Some sessionId \<and>
    IDLE_TIMEOUT_MS \<le> clk AtCheckIdle - lastActivityTime (tracker w)"
  then obtain m where m: "endSession (clk AtStoreEndSession) sessionId (store w) = Inr m"
      "sessionId \<notin> set (ongoing_ids m)"
    using endSession_closes [of "store w"] by blast
  then have "checkIdle clk w =
             Done (w\<lparr>store := m,
                     tracker := (tracker w)\<lparr>currentSessionId := None,
                                            currentFilePath := None\<rparr>\<rparr>)"
    using a by (simp add: checkIdle_def Let_def endCurrentSession_def)
  with m show "\<exists>m. endSession (clk AtStoreEndSession) sessionId (store w) = Inr m \<and>
           sessionId \<notin> set (ongoing_ids m) \<and>
           checkIdle clk w =
             Done (w\<lparr>store := m,
                     tracker := (tracker w)\<lparr>currentSessionId := None,
                                            currentFilePath := None\<rparr>\<rparr>)"
    by blast
next
  assume "e \<noteq> HeartbeatTick"
  then show "session_status (world_of (handle e clk w)) =
             session_status (world_of (handle e clk' w))"
    by (rule handle_status)
qed

theorem checkIdle_closes_iff_witness:
  "db (store tracking_world) \<noteq> None \<and>
   currentSessionId (tracker tracking_world) = Some 1 \<and>
   IDLE_TIMEOUT_MS \<le> (clock_at 120000) AtCheckIdle - lastActivityTime (tracker tracking_world) \<and>
   (clock_at 119999) AtCheckIdle - lastActivityTime (tracker tracking_world) < IDLE_TIMEOUT_MS \<and>
   StopCall \<noteq> HeartbeatTick \<and>
   isTracking tracking_world \<and>
   \<not> isTracking (world_of (checkIdle (clock_at 120000) tracking_world)) \<and>
   checkIdle (clock_at 119999) tracking_world = Done tracking_world \<and>
   session_status (world_of (handle StopCall (clock_at 120000) tracking_world)) =
     session_status (world_of (handle StopCall (clock_at 77) tracking_world))"
proof -
  have h1: "db (store tracking_world) \<noteq> None" by (simp add: tracking_world_def)
  have h2: "currentSessionId (tracker tracking_world) = Some 1" by (simp add: tracking_world_def)
  have h3: "IDLE_TIMEOUT_MS \<le>
            (clock_at 120000) AtCheckIdle - lastActivityTime (tracker tracking_world)"
    by (simp add: tracking_world_def IDLE_TIMEOUT_MS_def clock_at_def)
  have h4: "(clock_at 119999) AtCheckIdle - lastActivityTime (tracker tracking_world) <
            IDLE_TIMEOUT_MS"
    by (simp add: tracking_world_def IDLE_TIMEOUT_MS_def clock_at_def)
  have h5: "StopCall \<noteq> HeartbeatTick" by simp
  have t: "isTracking tracking_world" using h2 by (simp add: isTracking_def)
  note A = checkIdle_closes_iff [of tracking_world "clock_at 120000" 1 StopCall "clock_at 77"]
  note B = checkIdle_closes_iff [of tracking_world "clock_at 119999" 1 StopCall "clock_at 77"]
  have 1: "\<not> isTracking (world_of (checkIdle (clock_at 120000) tracking_world))"
    using A h1 h3 t by blast
  have 2: "checkIdle (clock_at 119999) tracking_world = Done tracking_world"
    using B h4 by blast
  have 3: "session_status (world_of (handle StopCall (clock_at 120000) tracking_world)) =
     session_status (world_of (handle StopCall (clock_at 77) tracking_world))"
    using A h5 by blast
  from h1 h2 h3 h4 h5 t 1 2 3 show ?thesis by blast
qed

subsection \<open>Window blur\<close>

text \<open>
  C9. The handler of a window-state event without focus changes \<^verbatim>\<open>lastActivityTime\<close> only,
  to the reading minus the timeout: the session stays open. With a session held and an
  initialized store, a heartbeat whose reading is not before the blur's then ends the
  session in the store and leaves the tracker not tracking.
\<close>

theorem window_blur_then_idle:
  "handle (DidChangeWindowState False editor) clk w =
     Done (w\<lparr>tracker := (tracker w)\<lparr>lastActivityTime := clk AtWindowBlur - IDLE_TIMEOUT_MS\<rparr>\<rparr>) \<and>
   (db (store w) \<noteq> None \<and> currentSessionId (tracker w) = Some sessionId \<and>
    clk AtWindowBlur \<le> clk' AtCheckIdle \<longrightarrow>
      (\<exists>m. endSession (clk' AtStoreEndSession) sessionId (store w) = Inr m \<and>
           sessionId \<notin> set (ongoing_ids m) \<and>
           run [(DidChangeWindowState False editor, clk), (HeartbeatTick, clk')] w =
             w\<lparr>store := m,
               tracker := \<lparr>currentSessionId = None, currentFilePath = None,
                           lastActivityTime = clk AtWindowBlur - IDLE_TIMEOUT_MS\<rparr>\<rparr> \<and>
           \<not> isTracking (run [(DidChangeWindowState False editor, clk), (HeartbeatTick, clk')] w)))"
proof (intro conjI impI)
  show "handle (DidChangeWindowState False editor) clk w =
     Done (w\<lparr>tracker := (tracker w)\<lparr>lastActivityTime := clk AtWindowBlur - IDLE_TIMEOUT_MS\<rparr>\<rparr>)"
    by (simp add: onWindowBlur_def)
next
  assume a: "db (store w) \<noteq> None \<and> currentSessionId (tracker w) = Some sessionId \<and>
    clk AtWindowBlur \<le> clk' AtCheckIdle"
  then obtain m where m: "endSession (clk' AtStoreEndSession) sessionId (store w) = Inr m"
      "sessionId \<notin> set (ongoing_ids m)"
    using endSession_closes [of "store w"] by blast
  have "run [(DidChangeWindowState False editor, clk), (HeartbeatTick, clk')] w =
             w\<lparr>store := m,
               tracker := \<lparr>currentSessionId = None, currentFilePath = None,
                           lastActivityTime = clk AtWindowBlur - IDLE_TIMEOUT_MS\<rparr>\<rparr>"
    using a m by (simp add: onWindowBlur_def checkIdle_def Let_def endCurrentSession_def)
  with m show "\<exists>m. endSession (clk' AtStoreEndSession) sessionId (store w) = Inr m \<and>
           sessionId \<notin> set (ongoing_ids m) \<and>
           run [(DidChangeWindowState False editor, clk), (HeartbeatTick, clk')] w =
             w\<lparr>store := m,
               tracker := \<lparr>currentSessionId = None, currentFilePath = None,
                           lastActivityTime = clk AtWindowBlur - IDLE_TIMEOUT_MS\<rparr>\<rparr> \<and>
           \<not> isTracking (run [(DidChangeWindowState False editor, clk), (HeartbeatTick, clk')] w)"
    by (simp add: isTracking_def)
qed

theorem window_blur_then_idle_witness:
  "db (store tracking_world) \<noteq> None \<and>
   currentSessionId (tracker tracking_world) = Some 1 \<and>
   (clock_at 5000) AtWindowBlur \<le> (clock_at 30000) AtCheckIdle \<and>
   handle (DidChangeWindowState False None) (clock_at 5000) tracking_world =
     Done (tracking_world\<lparr>tracker := (tracker tracking_world)
             \<lparr>lastActivityTime := clock_at 5000 AtWindowBlur - IDLE_TIMEOUT_MS\<rparr>\<rparr>) \<and>
   \<not> isTracking (run [(DidChangeWindowState False None, clock_at 5000),
                       (HeartbeatTick, clock_at 30000)] tracking_world)"
proof -
  have h1: "db (store tracking_world) \<noteq> None" by (simp add: tracking_world_def)
  have h2: "currentSessionId (tracker tracking_world) = Some 1" by (simp add: tracking_world_def)
  have h3: "(clock_at 5000) AtWindowBlur \<le> (clock_at 30000) AtCheckIdle"
    by (simp add: clock_at_def)
  note A = window_blur_then_idle
    [of None "clock_at 5000" tracking_world 1 "clock_at 30000"]
  have 1: "handle (DidChangeWindowState False None) (clock_at 5000) tracking_world =
     Done (tracking_world\<lparr>tracker := (tracker tracking_world)
             \<lparr>lastActivityTime := clock_at 5000 AtWindowBlur - IDLE_TIMEOUT_MS\<rparr>\<rparr>)"
    using A by blast
  have 2: "\<not> isTracking (run [(DidChangeWindowState False None, clock_at 5000),
                       (HeartbeatTick, clock_at 30000)] tracking_world)"
    using A h1 h2 h3 by blast
  from h1 h2 h3 1 2 show ?thesis by blast
qed

subsection \<open>getTodayStats\<close>

lemma sum_duration_ms_skip:
  "duration_ms s = None \<Longrightarrow>
   sum_duration_ms (filter (\<lambda>r. P r \<and> r \<noteq> s) rows) = sum_duration_ms (filter P rows)"
  unfolding sum_duration_ms_def by (induction rows) auto

text \<open>
  C10. A session that started today and is still open adds nothing to \<^verbatim>\<open>totalTime\<close>, which
  is the sum over the other sessions of today, while its file is among the files that
  \<^verbatim>\<open>fileCount\<close> counts. With one open session and nothing closed, \<^verbatim>\<open>getTodayStats\<close> answers
  a total of 0 for 1 file.
\<close>

theorem getTodayStats_open_session:
  "(db m = Some d \<and> s \<in> set (sessions d) \<and> todayStartMs \<le> start_time s \<and>
    end_time s = None \<and> duration_ms s = None \<longrightarrow>
      (\<exists>totalTime fileCount.
         getTodayStats todayStartMs m = Inr (totalTime, fileCount) \<and>
         totalTime =
           sum_duration_ms (filter (\<lambda>r. todayStartMs \<le> start_time r \<and> r \<noteq> s) (sessions d)) \<and>
         fileCount = card (file_path ` {r \<in> set (sessions d). todayStartMs \<le> start_time r}) \<and>
         file_path s \<in> file_path ` {r \<in> set (sessions d). todayStartMs \<le> start_time r} \<and>
         0 < fileCount)) \<and>
   getTodayStats 0 \<lparr>db = Some open_example, saveTimeout = True\<rparr> = Inr (0, 1) \<and>
   closed_sum ''/ws/a.ts'' open_example = 0"
proof (intro conjI impI)
  assume a: "db m = Some d \<and> s \<in> set (sessions d) \<and> todayStartMs \<le> start_time s \<and>
    end_time s = None \<and> duration_ms s = None"
  let ?rows = "filter (\<lambda>r. todayStartMs \<le> start_time r) (sessions d)"
  let ?files = "file_path ` {r \<in> set (sessions d). todayStartMs \<le> start_time r}"
  have g: "getTodayStats todayStartMs m =
           Inr (sum_duration_ms ?rows, length (remdups (map file_path ?rows)))"
    using a by (simp add: getTodayStats_def Let_def)
  have t: "sum_duration_ms ?rows =
           sum_duration_ms (filter (\<lambda>r. todayStartMs \<le> start_time r \<and> r \<noteq> s) (sessions d))"
    using a sum_duration_ms_skip [of s "\<lambda>r. todayStartMs \<le> start_time r" "sessions d"] by simp
  have "set (map file_path ?rows) = ?files" by auto
  then have c: "length (remdups (map file_path ?rows)) = card ?files"
    by (simp add: length_remdups_card_conv)
  have i: "file_path s \<in> ?files" using a by auto
  have "finite ?files" by simp
  then have p: "0 < card ?files" using i by (auto simp: card_gt_0_iff)
  from g t c i p
  show "\<exists>totalTime fileCount.
         getTodayStats todayStartMs m = Inr (totalTime, fileCount) \<and>
         totalTime =
           sum_duration_ms (filter (\<lambda>r. todayStartMs \<le> start_time r \<and> r \<noteq> s) (sessions d)) \<and>
         fileCount = card (file_path ` {r \<in> set (sessions d). todayStartMs \<le> start_time r}) \<and>
         file_path s \<in> file_path ` {r \<in> set (sessions d). todayStartMs \<le> start_time r} \<and>
         0 < fileCount"
    by simp
next
  show "getTodayStats 0 \<lparr>db = Some open_example, saveTimeout = True\<rparr> = Inr (0, 1)"
    by (simp add: getTodayStats_def open_example_def sum_duration_ms_def)
next
  show "closed_sum ''/ws/a.ts'' open_example = 0"
    by (simp add: closed_sum_def open_example_def sum_duration_ms_def)
qed

theorem getTodayStats_open_session_witness:
  "db \<lparr>db = Some open_example, saveTimeout = True\<rparr> = Some open_example \<and>
   example_row \<in> set (sessions open_example) \<and> 0 \<le> start_time example_row \<and>
   end_time example_row = None \<and> duration_ms example_row = None \<and>
   (\<exists>totalTime fileCount.
      getTodayStats 0 \<lparr>db = Some open_example, saveTimeout = True\<rparr> = Inr (totalTime, fileCount) \<and>
      totalTime =
        sum_duration_ms (filter (\<lambda>r. 0 \<le> start_time r \<and> r \<noteq> example_row) (sessions open_example)) \<and>
      file_path example_row \<in> file_path ` {r \<in> set (sessions open_example). 0 \<le> start_time r} \<and>
      0 < fileCount)"
proof -
  have h: "db \<lparr>db = Some open_example, saveTimeout = True\<rparr> = Some open_example \<and>
     example_row \<in> set (sessions open_example) \<and> 0 \<le> start_time example_row \<and>
     end_time example_row = None \<and> duration_ms example_row = None"
    by (simp add: open_example_def example_row_def)
  from getTodayStats_open_session
    [of "\<lparr>db = Some open_example, saveTimeout = True\<rparr>" open_example example_row 0] h
  show ?thesis by blast
qed

end
